theory Spec2Isabelle
  imports Main "HOL-Library.Sublist"
begin

section \<open>Python values\<close>

text \<open>
  The dispatcher receives an argument bag of type \<^verbatim>\<open>Dict[str, Any]\<close> that was decoded
  from JSON, and the upstream service answers with JSON. Both are values of the type below.
  \<open>JNull\<close> is Python's \<^verbatim>\<open>None\<close>. A \<open>char\<close> stands for one code point of a Python
  \<^verbatim>\<open>str\<close> (the model covers code points below 256), so \<open>length\<close> is Python's
  \<^verbatim>\<open>len\<close>. An object is an association list in which a key occurs once. JSON reals
  are outside the model.
\<close>

datatype json =
    JNull
  | JBool bool
  | JInt int
  | JStr string
  | JList "json list"
  | JObj "(string \<times> json) list"

text \<open>Python's truth value of an object, as tested by \<^verbatim>\<open>if x\<close> and \<^verbatim>\<open>not x\<close>.\<close>

fun truthy :: "json \<Rightarrow> bool" where
  "truthy JNull = False"
| "truthy (JBool b) = b"
| "truthy (JInt i) = (i \<noteq> 0)"
| "truthy (JStr s) = (s \<noteq> [])"
| "truthy (JList xs) = (xs \<noteq> [])"
| "truthy (JObj kvs) = (kvs \<noteq> [])"

fun type_name :: "json \<Rightarrow> string" where
  "type_name JNull = ''NoneType''"
| "type_name (JBool b) = ''bool''"
| "type_name (JInt i) = ''int''"
| "type_name (JStr s) = ''str''"
| "type_name (JList xs) = ''list''"
| "type_name (JObj kvs) = ''dict''"

text \<open>\<^verbatim>\<open>dict.get(key)\<close>: the value, or \<^verbatim>\<open>None\<close> when the key is missing.\<close>

definition dict_get :: "(string \<rightharpoonup> json) \<Rightarrow> string \<Rightarrow> json" where
  "dict_get d k = (case d k of None \<Rightarrow> JNull | Some v \<Rightarrow> v)"

text \<open>
  \<^verbatim>\<open>str.strip()\<close> removes leading and trailing whitespace: the code points for which
  \<^verbatim>\<open>str.isspace\<close> holds.
\<close>

definition isspace :: "char \<Rightarrow> bool" where
  "isspace ch = ((of_char ch :: nat) \<in> set [9, 10, 11, 12, 13, 28, 29, 30, 31, 32, 133, 160])"

definition strip :: "string \<Rightarrow> string" where
  "strip s = rev (dropWhile isspace (rev (dropWhile isspace s)))"

text \<open>Decimal rendering of an integer, as an f-string prints it.\<close>

fun str_nat :: "nat \<Rightarrow> string" where
  "str_nat n =
     (if n < 10 then [''0123456789'' ! n]
      else str_nat (n div 10) @ [''0123456789'' ! (n mod 10)])"

declare str_nat.simps [simp del]

definition str_int :: "int \<Rightarrow> string" where
  "str_int i = (if i < 0 then ''-'' @ str_nat (nat (- i)) else str_nat (nat i))"

section \<open>HTTP responses and exceptions\<close>

text \<open>
  The attributes of an \<^verbatim>\<open>httpx.Response\<close> that the program reads, itself or through
  the message of \<^verbatim>\<open>raise_for_status\<close>. \<open>location\<close> is the \<^verbatim>\<open>Location\<close> header,
  \<open>None\<close> when the response has none.
\<close>

record response =
  status_code :: int
  reason_phrase :: string
  response_url :: string
  location :: "string option"
  "text" :: string

text \<open>
  The exception classes that occur. \<open>JSONDecodeError\<close> is a subclass of \<open>ValueError\<close>,
  \<open>TimeoutException\<close> stands for \<^verbatim>\<open>httpx.TimeoutException\<close> and its subclasses, and
  \<open>PyException\<close> for a plain \<^verbatim>\<open>Exception\<close> or any class derived from it that no handler
  of the program names. Every class derives from \<^verbatim>\<open>Exception\<close>; task cancellation and
  interpreter exit are outside the model.
\<close>

datatype exn =
    ValueError string
  | JSONDecodeError string
  | TypeError string
  | AttributeError string
  | TimeoutException string
  | ConnectError string
  | ReadError string
  | HTTPStatusError response
  | HTTPException int string
  | PyException string

fun isinstance_ValueError :: "exn \<Rightarrow> bool" where
  "isinstance_ValueError (ValueError m) = True"
| "isinstance_ValueError (JSONDecodeError m) = True"
| "isinstance_ValueError e = False"

fun isinstance_HTTPStatusError :: "exn \<Rightarrow> bool" where
  "isinstance_HTTPStatusError (HTTPStatusError r) = True"
| "isinstance_HTTPStatusError e = False"

fun isinstance_TimeoutException :: "exn \<Rightarrow> bool" where
  "isinstance_TimeoutException (TimeoutException m) = True"
| "isinstance_TimeoutException e = False"

text \<open>
  The clause \<^verbatim>\<open>except (httpx.TimeoutException, httpx.ConnectError, httpx.ReadError)\<close>
  of the retry loop.
\<close>

fun is_transient :: "exn \<Rightarrow> bool" where
  "is_transient (TimeoutException m) = True"
| "is_transient (ConnectError m) = True"
| "is_transient (ReadError m) = True"
| "is_transient e = False"

text \<open>
  The message \<^verbatim>\<open>httpx\<close> gives the error that \<^verbatim>\<open>raise_for_status\<close> raises; it names
  the target of a redirect (status 301, 302, 303, 307 or 308 with a \<^verbatim>\<open>Location\<close>
  header).
\<close>

definition status_error_message :: "response \<Rightarrow> string" where
  "status_error_message r =
     (let status_class = status_code r div 100;
          error_type =
            (if status_class = 1 then ''Informational response''
             else if status_class = 3 then ''Redirect response''
             else if status_class = 4 then ''Client error''
             else if status_class = 5 then ''Server error''
             else ''Invalid status code'')
      in error_type @ '' '' @ [CHR 0x27] @ str_int (status_code r) @ '' '' @ reason_phrase r
         @ ''' for url '' @ [CHR 0x27] @ response_url r @ [CHR 0x27, CHR 0x0A]
         @ (case location r of
              None \<Rightarrow> []
            | Some target \<Rightarrow>
                if status_code r \<in> set [301, 302, 303, 307, 308]
                then ''Redirect location: '' @ [CHR 0x27] @ target @ [CHR 0x27, CHR 0x0A]
                else [])
         @ ''For more information check: https://developer.mozilla.org/en-US/docs/Web/HTTP/Status/''
         @ str_int (status_code r))"

text \<open>\<^verbatim>\<open>str(e)\<close>.\<close>

fun str_exn :: "exn \<Rightarrow> string" where
  "str_exn (ValueError m) = m"
| "str_exn (JSONDecodeError m) = m"
| "str_exn (TypeError m) = m"
| "str_exn (AttributeError m) = m"
| "str_exn (TimeoutException m) = m"
| "str_exn (ConnectError m) = m"
| "str_exn (ReadError m) = m"
| "str_exn (HTTPStatusError r) = status_error_message r"
| "str_exn (HTTPException code detail) = str_int code @ '': '' @ detail"
| "str_exn (PyException m) = m"

text \<open>\<^verbatim>\<open>len(x)\<close> and \<^verbatim>\<open>x.strip()\<close> on a value of any type.\<close>

fun py_len :: "json \<Rightarrow> exn + nat" where
  "py_len (JStr s) = Inr (length s)"
| "py_len (JList xs) = Inr (length xs)"
| "py_len (JObj kvs) = Inr (length kvs)"
| "py_len v = Inl (TypeError (''object of type '' @ [CHR 0x27] @ type_name v @ ''' has no len()''))"

fun py_strip :: "json \<Rightarrow> exn + string" where
  "py_strip (JStr s) = Inr (strip s)"
| "py_strip v =
     Inl (AttributeError ([CHR 0x27] @ type_name v @ ''' object has no attribute 'strip'' @ [CHR 0x27]))"

section \<open>The environment\<close>

text \<open>
  An outbound call \<^verbatim>\<open>client.request(method, url, json=payload, headers=headers)\<close> and
  what it does: it returns a response or raises.
\<close>

record http_request =
  http_method :: string
  url :: string
  json_payload :: json
  headers :: "(string \<times> string) list"

datatype outcome = Returns response | Raises exn

text \<open>
  What the program observes of the world and does not define itself: \<open>request env n rq\<close> is
  the outcome of the outbound call \<open>rq\<close> when \<open>n\<close> outbound calls were made before it;
  \<open>loads\<close> is \<^verbatim>\<open>json.loads\<close> (\<open>Inl m\<close> when the text is not JSON and the parser
  raises \<^verbatim>\<open>JSONDecodeError\<close> with the message \<open>m\<close>), \<open>dumps\<close> is
  \<^verbatim>\<open>json.dumps(_, indent=2)\<close>, \<open>repr\<close> is how an f-string renders a value that is
  not a string, and \<open>now\<close> is the clock's reading in ISO format.
\<close>

record env =
  request :: "nat \<Rightarrow> http_request \<Rightarrow> outcome"
  loads :: "string \<Rightarrow> string + json"
  dumps :: "json \<Rightarrow> string"
  repr :: "json \<Rightarrow> string"
  now :: string

text \<open>
  The effects of the program on the world, in the order in which they happen: an outbound
  call, or a sleep of so many seconds. The world is the trace of these events so far.
\<close>

datatype event = Request http_request | Sleep nat

type_synonym world = "event list"

fun requests_made :: "world \<Rightarrow> nat" where
  "requests_made [] = 0"
| "requests_made (Request rq # w) = Suc (requests_made w)"
| "requests_made (Sleep s # w) = requests_made w"

definition py_format :: "env \<Rightarrow> json \<Rightarrow> string" where
  "py_format env v = (case v of JStr s \<Rightarrow> s | _ \<Rightarrow> repr env v)"

section \<open>The API client (\<^verbatim>\<open>AmbivoAPIClient\<close>)\<close>

text \<open>
  \<open>auth_token\<close> is \<open>JNull\<close> when no token is set. \<open>timeout\<close> is the text of the float
  the client was configured with (\<^verbatim>\<open>30.0\<close> by default): the program only prints it.
  \<open>max_retries\<close> is a Python \<^verbatim>\<open>int\<close> read from the environment.
\<close>

record client =
  base_url :: string
  auth_token :: json
  timeout :: string
  max_retries :: int

definition set_auth_token :: "client \<Rightarrow> json \<Rightarrow> (exn + unit) \<times> client" where
  "set_auth_token c token =
     (if \<not> truthy token then (Inl (ValueError ''Invalid token format''), c)
      else case py_len token of
             Inl e \<Rightarrow> (Inl e, c)
           | Inr n \<Rightarrow>
               if n < 10 then (Inl (ValueError ''Invalid token format''), c)
               else (Inr (), c\<lparr>auth_token := token\<rparr>))"

definition get_headers :: "env \<Rightarrow> client \<Rightarrow> (string \<times> string) list" where
  "get_headers env c =
     [(''Content-Type'', ''application/json''), (''Accept'', ''application/json'')]
     @ (if truthy (auth_token c)
        then [(''Authorization'', ''Bearer '' @ py_format env (auth_token c))] else [])"

text \<open>
  The loop of \<^verbatim>\<open>_make_request_with_retry\<close>, entered at \<open>attempt\<close>. After the loop the
  source raises \<^verbatim>\<open>last_exception\<close>, which is still \<^verbatim>\<open>None\<close> when the loop ran no
  iteration; raising \<^verbatim>\<open>None\<close> is a \<^verbatim>\<open>TypeError\<close>.
\<close>

function make_request_loop ::
  "env \<Rightarrow> client \<Rightarrow> http_request \<Rightarrow> nat \<Rightarrow> exn option \<Rightarrow> world \<Rightarrow> (exn + response) \<times> world" where
  "make_request_loop env c rq attempt last_exception w =
     (if int attempt < max_retries c + 1 then
        (case request env (requests_made w) rq of
           Returns r \<Rightarrow> (Inr r, w @ [Request rq])
         | Raises e \<Rightarrow>
             if is_transient e then
               if int attempt < max_retries c then
                 make_request_loop env c rq (Suc attempt) (Some e)
                   (w @ [Request rq, Sleep (2 ^ attempt)])
               else (Inl e, w @ [Request rq])
             else (Inl e, w @ [Request rq]))
      else (case last_exception of
              None \<Rightarrow> (Inl (TypeError ''exceptions must derive from BaseException''), w)
            | Some e \<Rightarrow> (Inl e, w)))"
  by pat_completeness auto
termination
  by (relation "measure (\<lambda>(env, c, rq, attempt, last_exception, w). nat (max_retries c + 1 - int attempt))")
     auto

declare make_request_loop.simps [simp del]

definition make_request_with_retry ::
  "env \<Rightarrow> client \<Rightarrow> http_request \<Rightarrow> world \<Rightarrow> (exn + response) \<times> world" where
  "make_request_with_retry env c rq w = make_request_loop env c rq 0 None w"

text \<open>\<^verbatim>\<open>response.raise_for_status()\<close> and \<^verbatim>\<open>response.json()\<close>.\<close>

definition is_success :: "response \<Rightarrow> bool" where
  "is_success r = (200 \<le> status_code r \<and> status_code r \<le> 299)"

definition raise_for_status :: "response \<Rightarrow> exn + response" where
  "raise_for_status r = (if is_success r then Inr r else Inl (HTTPStatusError r))"

definition response_json :: "env \<Rightarrow> response \<Rightarrow> exn + json" where
  "response_json env r =
     (case loads env (response.text r) of
        Inl m \<Rightarrow> Inl (JSONDecodeError m)
      | Inr v \<Rightarrow> Inr v)"

text \<open>
  The \<^verbatim>\<open>except\<close> clauses of \<^verbatim>\<open>natural_query\<close>: a timeout is replaced by a plain
  \<^verbatim>\<open>Exception\<close>, everything else is raised again as it is.
\<close>

definition natural_query_except :: "client \<Rightarrow> exn \<Rightarrow> exn" where
  "natural_query_except c e =
     (if isinstance_TimeoutException e
      then PyException (''Request timeout after '' @ timeout c @ ''s'')
      else e)"

definition natural_query_request :: "env \<Rightarrow> client \<Rightarrow> json \<Rightarrow> json \<Rightarrow> json \<Rightarrow> json \<Rightarrow> http_request" where
  "natural_query_request env c query response_format enable_memory session_id =
     \<lparr>http_method = ''POST'',
      url = base_url c @ ''/entity/natural_query'',
      json_payload =
        JObj ([(''query'', query), (''response_format'', response_format)]
              @ (if enable_memory \<noteq> JNull then [(''enable_memory'', enable_memory)] else [])
              @ (if session_id \<noteq> JNull then [(''session_id'', session_id)] else [])),
      headers = get_headers env c\<rparr>"

definition natural_query ::
  "env \<Rightarrow> client \<Rightarrow> json \<Rightarrow> json \<Rightarrow> json \<Rightarrow> json \<Rightarrow> world \<Rightarrow> (exn + json) \<times> world" where
  "natural_query env c query response_format enable_memory session_id w =
     (if \<not> truthy query then (Inl (ValueError ''Query cannot be empty''), w)
      else
        (case py_strip query of
           Inl e \<Rightarrow> (Inl e, w)
         | Inr stripped \<Rightarrow>
             (if length stripped = 0 then (Inl (ValueError ''Query cannot be empty''), w)
              else
                (case py_len query of
                   Inl e \<Rightarrow> (Inl e, w)
                 | Inr n \<Rightarrow>
                     (if n > 1000
                      then (Inl (ValueError ''Query too long. Maximum length: 1000''), w)
                      else if response_format \<notin> set [JStr ''table'', JStr ''natural'', JStr ''both'']
                      then (Inl (ValueError
                             (''Invalid response_format. Must be 'table', 'natural', or 'both''
                              @ [CHR 0x27])), w)
                      else
                        (case make_request_with_retry env c
                                (natural_query_request env c query response_format
                                   enable_memory session_id) w of
                           (Inl e, w') \<Rightarrow> (Inl (natural_query_except c e), w')
                         | (Inr r, w') \<Rightarrow>
                             (case raise_for_status r of
                                Inl e \<Rightarrow> (Inl (natural_query_except c e), w')
                              | Inr r' \<Rightarrow>
                                  (case response_json env r' of
                                     Inl e \<Rightarrow> (Inl (natural_query_except c e), w')
                                   | Inr result \<Rightarrow> (Inr result, w')))))))))"

section \<open>The tool dispatcher\<close>

record TextContent =
  type :: string
  "text" :: string

text \<open>
  The body of the \<^verbatim>\<open>try\<close> statement of \<^verbatim>\<open>handle_call_tool\<close>. The global
  \<^verbatim>\<open>api_client\<close> is the client that is passed in and returned. \<open>Inl e\<close> is the
  exception \<open>e\<close> leaving the body.
\<close>

definition call_tool_body ::
  "env \<Rightarrow> string \<Rightarrow> (string \<rightharpoonup> json) \<Rightarrow> client \<Rightarrow> world
     \<Rightarrow> (exn + TextContent list) \<times> client \<times> world" where
  "call_tool_body env name arguments c w =
     (if name = ''set_auth_token'' then
        (let token = dict_get arguments ''token'' in
         if \<not> truthy token
         then (Inr [\<lparr>type = ''text'', text = ''Error: Authentication token is required''\<rparr>], c, w)
         else
           (case set_auth_token c token of
              (Inl e, c') \<Rightarrow> (Inl e, c', w)
            | (Inr u, c') \<Rightarrow>
                (Inr [\<lparr>type = ''text'',
                       text = ''Authentication token set successfully. You can now use other tools to query the Ambivo API.''\<rparr>],
                 c', w)))
      else if name = ''natural_query'' then
        (if \<not> truthy (auth_token c)
         then (Inr [\<lparr>type = ''text'',
                     text = ''Error: Authentication required. Please use the 'set_auth_token' tool first.''\<rparr>],
               c, w)
         else
           (let query = dict_get arguments ''query'' in
            if \<not> truthy query
            then (Inr [\<lparr>type = ''text'', text = ''Error: Query parameter is required''\<rparr>], c, w)
            else
              (let response_format =
                     (case arguments ''response_format'' of None \<Rightarrow> JStr ''both'' | Some v \<Rightarrow> v);
                   enable_memory = dict_get arguments ''enable_memory'';
                   session_id = dict_get arguments ''session_id''
               in case natural_query env c query response_format enable_memory session_id w of
                    (Inr result, w') \<Rightarrow>
                      (Inr [\<lparr>type = ''text'',
                             text = ''Natural Query Results:'' @ [CHR 0x0A, CHR 0x0A] @ dumps env result\<rparr>],
                       c, w')
                  | (Inl e, w') \<Rightarrow>
                      (case e of
                         HTTPStatusError r \<Rightarrow>
                           (Inr [\<lparr>type = ''text'',
                                  text = ''API Error: '' @ (''HTTP '' @ str_int (status_code r) @ '': ''
                                           @ response.text r)\<rparr>],
                            c, w')
                       | _ \<Rightarrow>
                           (Inr [\<lparr>type = ''text'',
                                  text = ''Error executing natural query: '' @ str_exn e\<rparr>],
                            c, w')))))
      else (Inr [\<lparr>type = ''text'', text = ''Unknown tool: '' @ name\<rparr>], c, w))"

text \<open>
  The \<^verbatim>\<open>try\<close> block inside the handler for \<^verbatim>\<open>httpx.HTTPStatusError\<close>: what it
  appends to the message, or \<open>None\<close> when it raises (the bare \<^verbatim>\<open>except\<close> then
  appends the first 200 characters of the body instead).
\<close>

definition error_code_suffix :: "env \<Rightarrow> response \<Rightarrow> string option" where
  "error_code_suffix env r =
     (case response_json env r of
        Inl e \<Rightarrow> None
      | Inr error_detail \<Rightarrow>
          (case error_detail of
             JObj kvs \<Rightarrow>
               (case map_of kvs ''error_code'' of
                  None \<Rightarrow> Some []
                | Some v \<Rightarrow> Some ('': '' @ py_format env v))
           | JList xs \<Rightarrow> (if JStr ''error_code'' \<in> set xs then None else Some [])
           | JStr s \<Rightarrow> (if sublist ''error_code'' s then None else Some [])
           | _ \<Rightarrow> None))"

text \<open>
  \<^verbatim>\<open>handle_call_tool\<close>: an absent argument bag is the empty one, then the body runs
  under the handlers for \<^verbatim>\<open>ValueError\<close>, \<^verbatim>\<open>httpx.HTTPStatusError\<close> and
  \<^verbatim>\<open>Exception\<close>, in this order.
\<close>

definition handle_call_tool ::
  "env \<Rightarrow> string \<Rightarrow> (string \<rightharpoonup> json) option \<Rightarrow> client \<Rightarrow> world
     \<Rightarrow> (exn + TextContent list) \<times> client \<times> world" where
  "handle_call_tool env name arguments c w =
     (let arguments = (case arguments of None \<Rightarrow> Map.empty | Some d \<Rightarrow> d) in
      case call_tool_body env name arguments c w of
        (Inr result, c', w') \<Rightarrow> (Inr result, c', w')
      | (Inl e, c', w') \<Rightarrow>
          (if isinstance_ValueError e
           then (Inr [\<lparr>type = ''text'', text = ''Validation Error: '' @ str_exn e\<rparr>], c', w')
           else
             (case e of
                HTTPStatusError r \<Rightarrow>
                  (let error_msg = ''API Error (HTTP '' @ str_int (status_code r) @ '')'' in
                   (Inr [\<lparr>type = ''text'',
                          text = (case error_code_suffix env r of
                                    Some appended \<Rightarrow> error_msg @ appended
                                  | None \<Rightarrow> error_msg @ '': '' @ take 200 (response.text r))\<rparr>],
                    c', w'))
              | _ \<Rightarrow>
                  (Inr [\<lparr>type = ''text'', text = ''Unexpected error: '' @ str_exn e\<rparr>], c', w'))))"

record Tool =
  name :: string
  description :: string
  inputSchema :: json

definition handle_list_tools :: "Tool list" where
  "handle_list_tools =
     [\<lparr>name = ''natural_query'',
       description =
         ''Execute natural language queries against Ambivo entity data. ''
         @ ''This tool processes natural language queries and returns structured data ''
         @ ''about leads, contacts, opportunities, and other entities.'',
       inputSchema =
         JObj [(''type'', JStr ''object''),
               (''properties'',
                JObj [(''query'',
                       JObj [(''type'', JStr ''string''),
                             (''description'',
                              JStr (''Natural language query describing what data you want to retrieve. ''
                                    @ ''Examples: 'Show me leads created this week', 'Find contacts with gmail addresses', ''
                                    @ '''List opportunities worth more than $10,000'' @ [CHR 0x27]))]),
                      (''response_format'',
                       JObj [(''type'', JStr ''string''),
                             (''enum'', JList [JStr ''table'', JStr ''natural'', JStr ''both'']),
                             (''default'', JStr ''both''),
                             (''description'',
                              JStr (''Format of the response: 'table' for structured data, ''
                                    @ '''natural' for natural language description, 'both' for both formats''))]),
                      (''enable_memory'',
                       JObj [(''type'', JStr ''boolean''),
                             (''description'',
                              JStr ''Optional flag to enable memory for the query session'')]),
                      (''session_id'',
                       JObj [(''type'', JStr ''string''),
                             (''description'',
                              JStr ''Optional session identifier for memory management'')])]),
               (''required'', JList [JStr ''query''])]\<rparr>,
      \<lparr>name = ''set_auth_token'',
       description =
         ''Set the authentication token for API requests. ''
         @ ''This must be called before using other tools to authenticate with the Ambivo API.'',
       inputSchema =
         JObj [(''type'', JStr ''object''),
               (''properties'',
                JObj [(''token'',
                       JObj [(''type'', JStr ''string''),
                             (''description'',
                              JStr ''JWT Bearer token for authentication with Ambivo API'')])]),
               (''required'', JList [JStr ''token''])]\<rparr>]"

section \<open>The HTTP handlers\<close>

definition VERSION_TIMESTAMP :: string where
  "VERSION_TIMESTAMP = ''2025-07-31T02:50:00Z''"

record QueryRequest =
  query :: string
  response_format :: string

record ToolRequest =
  name :: string
  arguments :: "string \<rightharpoonup> json"

text \<open>
  The dependency \<^verbatim>\<open>get_auth_token\<close> of \<^verbatim>\<open>GET /tools\<close> and \<^verbatim>\<open>POST /tools\<close>.
  The \<^verbatim>\<open>Authorization\<close> header is \<open>None\<close> when the request has none.
\<close>

definition get_auth_token :: "string option \<Rightarrow> exn + string" where
  "get_auth_token authorization =
     (case authorization of
        None \<Rightarrow> Inl (HTTPException 401 ''Authorization header required'')
      | Some a \<Rightarrow>
          (if a = [] then Inl (HTTPException 401 ''Authorization header required'')
           else if \<not> prefix ''Bearer '' a then Inl (HTTPException 401 ''Bearer token required'')
           else (let token = drop 7 a in
                 if token = [] then Inl (HTTPException 401 ''Token cannot be empty'')
                 else Inr token)))"

text \<open>
  The \<^verbatim>\<open>finally\<close> block that the three handlers share: the token that was stored
  before the request is put back if it is truthy, otherwise the token is set to
  \<^verbatim>\<open>None\<close>.
\<close>

definition restore_token :: "json \<Rightarrow> client \<Rightarrow> client" where
  "restore_token original_token c =
     (if truthy original_token then c\<lparr>auth_token := original_token\<rparr>
      else c\<lparr>auth_token := JNull\<rparr>)"

text \<open>The loop that joins the texts of a result, each followed by a newline.\<close>

definition response_text :: "TextContent list \<Rightarrow> string" where
  "response_text result = foldl (\<lambda>acc content. acc @ TextContent.text content @ [CHR 0x0A]) [] result"

text \<open>
  \<^verbatim>\<open>POST /query\<close>. The body of the outer \<^verbatim>\<open>try\<close> first; the handler turns any
  exception that leaves it into an \<^verbatim>\<open>HTTPException\<close> with status 500.
\<close>

definition natural_language_query_body ::
  "env \<Rightarrow> QueryRequest \<Rightarrow> string option \<Rightarrow> client \<Rightarrow> world \<Rightarrow> (exn + json) \<times> client \<times> world" where
  "natural_language_query_body env rq authorization c w =
     (let query_text = query rq; format_type = response_format rq in
      case authorization of
        None \<Rightarrow>
          (Inr (JObj [(''debug'', JStr ''No authorization header received''),
                      (''query'', JStr query_text),
                      (''timestamp'', JStr (now env)),
                      (''success'', JBool False)]), c, w)
      | Some a \<Rightarrow>
          (if a = [] then
             (Inr (JObj [(''debug'', JStr ''No authorization header received''),
                         (''query'', JStr query_text),
                         (''timestamp'', JStr (now env)),
                         (''success'', JBool False)]), c, w)
           else if \<not> prefix ''Bearer '' a then
             (Inr (JObj [(''debug'', JStr (''Authorization header format wrong: ''
                                          @ [CHR 0x27] @ a @ [CHR 0x27])),
                         (''query'', JStr query_text),
                         (''timestamp'', JStr (now env)),
                         (''success'', JBool False)]), c, w)
           else
             (let token = drop 7 a in
              if query_text = []
              then (Inl (HTTPException 400 ''Query parameter is required''), c, w)
              else
                (let original_token = auth_token c in
                 case set_auth_token c (JStr token) of
                   (Inl e, c1) \<Rightarrow> (Inl e, c1, w)
                 | (Inr u, c1) \<Rightarrow>
                     (case handle_call_tool env ''natural_query''
                             (Some [''query'' \<mapsto> JStr query_text,
                                    ''response_format'' \<mapsto> JStr format_type]) c1 w of
                        (Inl e, c2, w2) \<Rightarrow> (Inl e, restore_token original_token c2, w2)
                      | (Inr result, c2, w2) \<Rightarrow>
                          (Inr (JObj [(''query'', JStr query_text),
                                      (''result'', JStr (strip (response_text result))),
                                      (''response_format'', JStr format_type),
                                      (''timestamp'', JStr (now env)),
                                      (''success'', JBool True)]),
                           restore_token original_token c2, w2))))))"

definition natural_language_query ::
  "env \<Rightarrow> QueryRequest \<Rightarrow> string option \<Rightarrow> client \<Rightarrow> world \<Rightarrow> (exn + json) \<times> client \<times> world" where
  "natural_language_query env rq authorization c w =
     (case natural_language_query_body env rq authorization c w of
        (Inl e, c', w') \<Rightarrow> (Inl (HTTPException 500 (str_exn e)), c', w')
      | (Inr reply, c', w') \<Rightarrow> (Inr reply, c', w'))"

text \<open>
  \<^verbatim>\<open>GET /tools\<close>. When the dependency raises, the framework answers with its
  \<^verbatim>\<open>HTTPException\<close> and the handler does not run.
\<close>

definition list_tools_body :: "env \<Rightarrow> string \<Rightarrow> client \<Rightarrow> world \<Rightarrow> (exn + json) \<times> client \<times> world" where
  "list_tools_body env token c w =
     (let original_token = auth_token c in
      case set_auth_token c (JStr token) of
        (Inl e, c1) \<Rightarrow> (Inl e, c1, w)
      | (Inr u, c1) \<Rightarrow>
          (let mcp_tools = handle_list_tools;
               tools = map (\<lambda>tool. JObj [(''name'', JStr (Tool.name tool)),
                                         (''description'', JStr (description tool)),
                                         (''parameters'', inputSchema tool)]) mcp_tools
           in (Inr (JObj [(''tools'', JList tools),
                          (''server_info'',
                           JObj [(''name'', JStr ''ambivo-gpt-actions-fastapi''),
                                 (''version'', JStr VERSION_TIMESTAMP),
                                 (''capabilities'',
                                  JList [JStr ''natural_language_queries'',
                                         JStr ''crm_data_access''])])]),
               restore_token original_token c1, w)))"

definition list_tools :: "env \<Rightarrow> string option \<Rightarrow> client \<Rightarrow> world \<Rightarrow> (exn + json) \<times> client \<times> world" where
  "list_tools env authorization c w =
     (case get_auth_token authorization of
        Inl e \<Rightarrow> (Inl e, c, w)
      | Inr token \<Rightarrow>
          (case list_tools_body env token c w of
             (Inl e, c', w') \<Rightarrow> (Inl (HTTPException 500 (str_exn e)), c', w')
           | (Inr reply, c', w') \<Rightarrow> (Inr reply, c', w')))"

text \<open>\<^verbatim>\<open>POST /tools\<close>.\<close>

definition execute_tool_body ::
  "env \<Rightarrow> ToolRequest \<Rightarrow> string \<Rightarrow> client \<Rightarrow> world \<Rightarrow> (exn + json) \<times> client \<times> world" where
  "execute_tool_body env rq token c w =
     (let original_token = auth_token c in
      case set_auth_token c (JStr token) of
        (Inl e, c1) \<Rightarrow> (Inl e, c1, w)
      | (Inr u, c1) \<Rightarrow>
          (case handle_call_tool env (ToolRequest.name rq) (Some (arguments rq)) c1 w of
             (Inl e, c2, w2) \<Rightarrow> (Inl e, restore_token original_token c2, w2)
           | (Inr result, c2, w2) \<Rightarrow>
               (Inr (JObj [(''result'', JStr (strip (response_text result))),
                           (''tool_name'', JStr (ToolRequest.name rq)),
                           (''success'', JBool True)]),
                restore_token original_token c2, w2)))"

definition execute_tool ::
  "env \<Rightarrow> ToolRequest \<Rightarrow> string option \<Rightarrow> client \<Rightarrow> world \<Rightarrow> (exn + json) \<times> client \<times> world" where
  "execute_tool env rq authorization c w =
     (case get_auth_token authorization of
        Inl e \<Rightarrow> (Inl e, c, w)
      | Inr token \<Rightarrow>
          (case execute_tool_body env rq token c w of
             (Inl e, c', w') \<Rightarrow> (Inl (HTTPException 500 (str_exn e)), c', w')
           | (Inr reply, c', w') \<Rightarrow> (Inr reply, c', w')))"

section \<open>Concrete clients and environments\<close>

text \<open>
  A client with a token, a successful upstream answer and one with status 500, and four
  environments: one in which the first two outbound calls time out and the third is
  answered, one in which every call fails to connect, one in which every call times out,
  and one that answers every call with status 500.
\<close>

definition example_client :: client where
  "example_client =
     \<lparr>base_url = ''https://goferapi.ambivo.com'', auth_token = JStr ''valid-token-1234'',
      timeout = ''30.0'', max_retries = 3\<rparr>"

definition count_response :: response where
  \<open>count_response =
     \<lparr>status_code = 200, reason_phrase = ''OK'',
      response_url = ''https://goferapi.ambivo.com/entity/natural_query'',
      location = None,
      text = ''{"count": 5}''\<rparr>\<close>

definition error_response :: response where
  \<open>error_response =
     \<lparr>status_code = 500, reason_phrase = ''Internal Server Error'',
      response_url = ''https://goferapi.ambivo.com/entity/natural_query'',
      location = None,
      text = ''{"error_code": "E42"}''\<rparr>\<close>

definition flaky_env :: env where
  \<open>flaky_env =
     \<lparr>request = (\<lambda>n rq. if n < 2 then Raises (TimeoutException ''timed out'')
                         else Returns count_response),
      loads = (\<lambda>s. if s = ''{"count": 5}'' then Inr (JObj [(''count'', JInt 5)])
                    else if s = ''{"error_code": "E42"}''
                    then Inr (JObj [(''error_code'', JStr ''E42'')])
                    else Inl ''Expecting value: line 1 column 1 (char 0)''),
      dumps = (\<lambda>v. ''{'' @ [CHR 0x0A] @ ''  "count": 5'' @ [CHR 0x0A] @ ''}''),
      repr = (\<lambda>v. ''None''),
      now = ''2025-07-31T02:50:00+00:00''\<rparr>\<close>

definition dead_env :: env where
  "dead_env = flaky_env\<lparr>request := (\<lambda>n rq. Raises (ConnectError ''All connection attempts failed''))\<rparr>"

definition timeout_env :: env where
  "timeout_env = flaky_env\<lparr>request := (\<lambda>n rq. Raises (TimeoutException ''timed out''))\<rparr>"

definition status_env :: env where
  "status_env = flaky_env\<lparr>request := (\<lambda>n rq. Returns error_response)\<rparr>"

section \<open>Theorems\<close>

subsection \<open>The retry loop\<close>

lemma requests_made_append: "requests_made (w @ v) = requests_made w + requests_made v"
  by (induction w rule: requests_made.induct) simp_all

text \<open>
  The loop entered at attempt \<open>a\<close>, when the next \<open>k\<close> calls fail with exceptions that
  the loop retries and the call after them is answered, and \<open>a + k\<close> is still within
  \<open>max_retries\<close>.
\<close>

lemma make_request_loop_returns:
  assumes "\<forall>i<k. request env (requests_made w + i) rq = Raises (es i) \<and> is_transient (es i)"
    and "request env (requests_made w + k) rq = Returns r"
    and "int (a + k) \<le> max_retries c"
  shows "make_request_loop env c rq a last_exception w
           = (Inr r, w @ concat (map (\<lambda>i. [Request rq, Sleep (2 ^ i)]) [a..<a + k]) @ [Request rq])"
  using assms
proof (induction k arbitrary: a last_exception w es)
  case 0
  then show ?case by (simp add: make_request_loop.simps)
next
  case (Suc k)
  let ?w = "w @ [Request rq, Sleep (2 ^ a)]"
  have first: "request env (requests_made w) rq = Raises (es 0)" "is_transient (es 0)"
    using Suc.prems(1) by auto
  have rest: "\<forall>i<k. request env (requests_made ?w + i) rq = Raises (es (Suc i))
                       \<and> is_transient (es (Suc i))"
    using Suc.prems(1) by (auto simp: requests_made_append)
  have ret: "request env (requests_made ?w + k) rq = Returns r"
    using Suc.prems(2) by (simp add: requests_made_append)
  have bound: "int (Suc a + k) \<le> max_retries c"
    using Suc.prems(3) by simp
  have step: "make_request_loop env c rq a last_exception w
                = make_request_loop env c rq (Suc a) (Some (es 0)) ?w"
    using first Suc.prems(3) by (subst make_request_loop.simps) simp
  have "[a..<a + Suc k] = a # [Suc a..<Suc a + k]"
    by (simp add: upt_conv_Cons)
  then show ?case
    using Suc.IH [OF rest ret bound] step by simp
qed

text \<open>The same when the call at attempt \<open>max_retries\<close> fails as well.\<close>

lemma make_request_loop_exhausted:
  assumes "\<forall>i\<le>k. request env (requests_made w + i) rq = Raises (es i) \<and> is_transient (es i)"
    and "int (a + k) = max_retries c"
  shows "make_request_loop env c rq a last_exception w
           = (Inl (es k), w @ concat (map (\<lambda>i. [Request rq, Sleep (2 ^ i)]) [a..<a + k]) @ [Request rq])"
  using assms
proof (induction k arbitrary: a last_exception w es)
  case 0
  then show ?case by (simp add: make_request_loop.simps)
next
  case (Suc k)
  let ?w = "w @ [Request rq, Sleep (2 ^ a)]"
  have first: "request env (requests_made w) rq = Raises (es 0)" "is_transient (es 0)"
    using Suc.prems(1) by auto
  have rest: "\<forall>i\<le>k. request env (requests_made ?w + i) rq = Raises (es (Suc i))
                       \<and> is_transient (es (Suc i))"
    using Suc.prems(1) by (auto simp: requests_made_append)
  have bound: "int (Suc a + k) = max_retries c"
    using Suc.prems(2) by simp
  have step: "make_request_loop env c rq a last_exception w
                = make_request_loop env c rq (Suc a) (Some (es 0)) ?w"
    using first Suc.prems(2) by (subst make_request_loop.simps) simp
  have "[a..<a + Suc k] = a # [Suc a..<Suc a + k]"
    by (simp add: upt_conv_Cons)
  then show ?case
    using Suc.IH [OF rest bound] step by simp
qed

subsection \<open>The client\<close>

lemma strip_Nil: "strip [] = []"
  by (simp add: strip_def)

text \<open>With arguments that pass the checks, \<open>natural_query\<close> is the request and what
  follows it.\<close>

lemma natural_query_valid:
  assumes "strip q \<noteq> []" and "length q \<le> 1000" and "rf \<in> {''table'', ''natural'', ''both''}"
  shows "natural_query env c (JStr q) (JStr rf) em sid w =
           (case make_request_with_retry env c (natural_query_request env c (JStr q) (JStr rf) em sid) w of
              (Inl e, w') \<Rightarrow> (Inl (natural_query_except c e), w')
            | (Inr r, w') \<Rightarrow>
                (if is_success r
                 then (case response_json env r of
                         Inl e \<Rightarrow> (Inl (natural_query_except c e), w')
                       | Inr result \<Rightarrow> (Inr result, w'))
                 else (Inl (HTTPStatusError r), w')))"
proof -
  from assms(1) have "q \<noteq> []" using strip_Nil by auto
  with assms show ?thesis
    by (auto simp: natural_query_def raise_for_status_def natural_query_except_def
             split: prod.splits sum.splits)
qed

lemma response_json_except: "response_json env r = Inl e \<Longrightarrow> natural_query_except c e = e"
  by (auto simp: response_json_def natural_query_except_def split: sum.splits)

lemma example_arguments_valid:
  "strip ''count leads'' \<noteq> []" "length ''count leads'' \<le> 1000"
  "''natural'' \<in> {''table'', ''natural'', ''both''}"
  by (simp_all add: strip_def isspace_def)

text \<open>
  C1, as the code has it: let the query and the response format be valid and \<open>rq\<close> be
  the outbound call that \<open>natural_query\<close> builds from them. If the first
  \<open>k \<le> max_retries\<close> attempts fail with a timeout, a connect error or a read error and
  the next attempt is answered by \<open>r\<close>, the trace of the call is the \<open>k + 1\<close> attempts
  with sleeps of \<open>2^0, ..., 2^(k-1)\<close> seconds between them,
  \<open>make_request_with_retry\<close> returns \<open>r\<close> and the call ends with that response: its
  JSON body when the status is 2xx. If all \<open>max_retries + 1\<close> attempts fail in this way,
  the trace has exactly \<open>max_retries + 1\<close> attempts and no sleep after the last one,
  \<open>make_request_with_retry\<close> raises the last of these exceptions, and the call raises
  that exception itself when it is a connect or read error, and the plain exception
  \<open>Request timeout after <timeout>s\<close>, which is none of the three kinds, when it is a
  timeout.
\<close>

theorem natural_query_retries_transient_failures:
  assumes "strip q \<noteq> []" and "length q \<le> 1000" and "rf \<in> {''table'', ''natural'', ''both''}"
    and "rq = natural_query_request env c (JStr q) (JStr rf) em sid"
  shows "(int k \<le> max_retries c
          \<and> (\<forall>i<k. request env (requests_made w + i) rq = Raises (es i) \<and> is_transient (es i))
          \<and> request env (requests_made w + k) rq = Returns r
          \<longrightarrow> make_request_with_retry env c rq w
                = (Inr r, w @ concat (map (\<lambda>i. [Request rq, Sleep (2 ^ i)]) [0..<k]) @ [Request rq])
            \<and> natural_query env c (JStr q) (JStr rf) em sid w
                = (if is_success r then response_json env r else Inl (HTTPStatusError r),
                   w @ concat (map (\<lambda>i. [Request rq, Sleep (2 ^ i)]) [0..<k]) @ [Request rq]))
       \<and> (0 \<le> max_retries c
          \<and> (\<forall>i\<le>nat (max_retries c).
                 request env (requests_made w + i) rq = Raises (es i) \<and> is_transient (es i))
          \<longrightarrow> make_request_with_retry env c rq w
                = (Inl (es (nat (max_retries c))),
                   w @ concat (map (\<lambda>i. [Request rq, Sleep (2 ^ i)]) [0..<nat (max_retries c)])
                     @ [Request rq])
            \<and> natural_query env c (JStr q) (JStr rf) em sid w
                = (Inl (case es (nat (max_retries c)) of
                          TimeoutException m \<Rightarrow>
                            PyException (''Request timeout after '' @ timeout c @ ''s'')
                        | e \<Rightarrow> e),
                   w @ concat (map (\<lambda>i. [Request rq, Sleep (2 ^ i)]) [0..<nat (max_retries c)])
                     @ [Request rq])
            \<and> \<not> is_transient (PyException (''Request timeout after '' @ timeout c @ ''s''))
            \<and> requests_made
                  (w @ concat (map (\<lambda>i. [Request rq, Sleep (2 ^ i)]) [0..<nat (max_retries c)])
                     @ [Request rq])
                = requests_made w + (nat (max_retries c) + 1))"
proof -
  have returns: "make_request_with_retry env c rq w
               = (Inr r, w @ concat (map (\<lambda>i. [Request rq, Sleep (2 ^ i)]) [0..<k]) @ [Request rq])"
    if "int k \<le> max_retries c
          \<and> (\<forall>i<k. request env (requests_made w + i) rq = Raises (es i) \<and> is_transient (es i))
          \<and> request env (requests_made w + k) rq = Returns r"
    using that make_request_loop_returns [of k env w rq es r 0 c None]
    by (simp add: make_request_with_retry_def)
  have exhausted: "make_request_with_retry env c rq w
               = (Inl (es (nat (max_retries c))),
                  w @ concat (map (\<lambda>i. [Request rq, Sleep (2 ^ i)]) [0..<nat (max_retries c)])
                    @ [Request rq])"
    if "0 \<le> max_retries c
          \<and> (\<forall>i\<le>nat (max_retries c).
                 request env (requests_made w + i) rq = Raises (es i) \<and> is_transient (es i))"
    using that make_request_loop_exhausted [of "nat (max_retries c)" env w rq es 0 c None]
    by (simp add: make_request_with_retry_def)
  have query_returns: "natural_query env c (JStr q) (JStr rf) em sid w
                = (if is_success r then response_json env r else Inl (HTTPStatusError r), w')"
    if "make_request_with_retry env c rq w = (Inr r, w')" for w'
    using that assms(4) response_json_except [of env r _ c]
    by (auto simp: natural_query_valid [OF assms(1-3)] split: sum.splits)
  have raised: "natural_query_except c e
                 = (case e of
                      TimeoutException m \<Rightarrow> PyException (''Request timeout after '' @ timeout c @ ''s'')
                    | e' \<Rightarrow> e')" for e
    by (cases e) (simp_all add: natural_query_except_def)
  have query_raises: "natural_query env c (JStr q) (JStr rf) em sid w
                = (Inl (case e of
                          TimeoutException m \<Rightarrow>
                            PyException (''Request timeout after '' @ timeout c @ ''s'')
                        | e' \<Rightarrow> e'), w')"
    if "make_request_with_retry env c rq w = (Inl e, w')" for e w'
    using that assms(4) raised [of e] by (simp add: natural_query_valid [OF assms(1-3)])
  have count: "requests_made (w @ concat (map (\<lambda>i. [Request rq, Sleep (2 ^ i)]) [0..<n]) @ [Request rq])
                 = requests_made w + (n + 1)" for n
    by (induction n) (simp_all add: requests_made_append)
  have plain: "\<not> is_transient (PyException (''Request timeout after '' @ timeout c @ ''s''))"
    by simp
  show ?thesis
    using returns exhausted query_returns query_raises count plain by blast
qed

text \<open>
  Two timeouts and then an answer with three retries allowed; a connect error on both
  attempts with one retry allowed; a timeout on both attempts with one retry allowed.
\<close>

theorem natural_query_retries_transient_failures_witness:
  "natural_query flaky_env example_client (JStr ''count leads'') (JStr ''natural'') JNull JNull []
     = (Inr (JObj [(''count'', JInt 5)]),
        [Request (natural_query_request flaky_env example_client
                    (JStr ''count leads'') (JStr ''natural'') JNull JNull),
         Sleep 1,
         Request (natural_query_request flaky_env example_client
                    (JStr ''count leads'') (JStr ''natural'') JNull JNull),
         Sleep 2,
         Request (natural_query_request flaky_env example_client
                    (JStr ''count leads'') (JStr ''natural'') JNull JNull)])
   \<and> natural_query dead_env (example_client\<lparr>max_retries := 1\<rparr>)
       (JStr ''count leads'') (JStr ''natural'') JNull JNull []
     = (Inl (ConnectError ''All connection attempts failed''),
        [Request (natural_query_request dead_env (example_client\<lparr>max_retries := 1\<rparr>)
                    (JStr ''count leads'') (JStr ''natural'') JNull JNull),
         Sleep 1,
         Request (natural_query_request dead_env (example_client\<lparr>max_retries := 1\<rparr>)
                    (JStr ''count leads'') (JStr ''natural'') JNull JNull)])
   \<and> natural_query timeout_env (example_client\<lparr>max_retries := 1\<rparr>)
       (JStr ''count leads'') (JStr ''natural'') JNull JNull []
     = (Inl (PyException ''Request timeout after 30.0s''),
        [Request (natural_query_request timeout_env (example_client\<lparr>max_retries := 1\<rparr>)
                    (JStr ''count leads'') (JStr ''natural'') JNull JNull),
         Sleep 1,
         Request (natural_query_request timeout_env (example_client\<lparr>max_retries := 1\<rparr>)
                    (JStr ''count leads'') (JStr ''natural'') JNull JNull)])"
proof -
  have two: "[0..<2] = [0, Suc 0]" "[0..<Suc 0] = [0]"
    by (simp_all add: upt_conv_Cons)
  have a: "natural_query flaky_env example_client (JStr ''count leads'') (JStr ''natural'') JNull JNull []
     = (Inr (JObj [(''count'', JInt 5)]),
        [Request (natural_query_request flaky_env example_client
                    (JStr ''count leads'') (JStr ''natural'') JNull JNull),
         Sleep 1,
         Request (natural_query_request flaky_env example_client
                    (JStr ''count leads'') (JStr ''natural'') JNull JNull),
         Sleep 2,
         Request (natural_query_request flaky_env example_client
                    (JStr ''count leads'') (JStr ''natural'') JNull JNull)])"
    using natural_query_retries_transient_failures
            [OF example_arguments_valid refl,
             where k = 2 and c = example_client and w = "[]" and env = flaky_env
               and em = JNull and sid = JNull and es = "\<lambda>i. TimeoutException ''timed out''"
               and r = count_response, THEN conjunct1, THEN mp, THEN conjunct2]
    by (simp add: two flaky_env_def example_client_def count_response_def is_success_def
          response_json_def)
  have b: "natural_query dead_env (example_client\<lparr>max_retries := 1\<rparr>)
       (JStr ''count leads'') (JStr ''natural'') JNull JNull []
     = (Inl (ConnectError ''All connection attempts failed''),
        [Request (natural_query_request dead_env (example_client\<lparr>max_retries := 1\<rparr>)
                    (JStr ''count leads'') (JStr ''natural'') JNull JNull),
         Sleep 1,
         Request (natural_query_request dead_env (example_client\<lparr>max_retries := 1\<rparr>)
                    (JStr ''count leads'') (JStr ''natural'') JNull JNull)])"
    using natural_query_retries_transient_failures
            [OF example_arguments_valid refl,
             where c = "example_client\<lparr>max_retries := 1\<rparr>" and w = "[]"
               and env = dead_env and em = JNull and sid = JNull
               and es = "\<lambda>i. ConnectError ''All connection attempts failed''", THEN conjunct2,
             THEN mp, THEN conjunct2, THEN conjunct1]
    by (simp add: two dead_env_def flaky_env_def example_client_def)
  have c: "natural_query timeout_env (example_client\<lparr>max_retries := 1\<rparr>)
       (JStr ''count leads'') (JStr ''natural'') JNull JNull []
     = (Inl (PyException ''Request timeout after 30.0s''),
        [Request (natural_query_request timeout_env (example_client\<lparr>max_retries := 1\<rparr>)
                    (JStr ''count leads'') (JStr ''natural'') JNull JNull),
         Sleep 1,
         Request (natural_query_request timeout_env (example_client\<lparr>max_retries := 1\<rparr>)
                    (JStr ''count leads'') (JStr ''natural'') JNull JNull)])"
    using natural_query_retries_transient_failures
            [OF example_arguments_valid refl,
             where c = "example_client\<lparr>max_retries := 1\<rparr>" and w = "[]"
               and env = timeout_env and em = JNull and sid = JNull
               and es = "\<lambda>i. TimeoutException ''timed out''", THEN conjunct2,
             THEN mp, THEN conjunct2, THEN conjunct1]
    by (simp add: two timeout_env_def flaky_env_def example_client_def)
  from a b c show ?thesis by simp
qed

text \<open>
  C1 as stated fails: with one retry allowed and a timeout on both attempts, the two
  attempts are made with one second between them, and the call raises neither the last
  timeout nor any exception of the three kinds, but a plain exception.
\<close>

theorem natural_query_retries_transient_failures_counterexample:
  "request timeout_env 0
     (natural_query_request timeout_env (example_client\<lparr>max_retries := 1\<rparr>)
        (JStr ''count leads'') (JStr ''natural'') JNull JNull)
     = Raises (TimeoutException ''timed out'')
   \<and> request timeout_env 1
     (natural_query_request timeout_env (example_client\<lparr>max_retries := 1\<rparr>)
        (JStr ''count leads'') (JStr ''natural'') JNull JNull)
     = Raises (TimeoutException ''timed out'')
   \<and> is_transient (TimeoutException ''timed out'')
   \<and> natural_query timeout_env (example_client\<lparr>max_retries := 1\<rparr>)
       (JStr ''count leads'') (JStr ''natural'') JNull JNull []
     = (Inl (PyException ''Request timeout after 30.0s''),
        [Request (natural_query_request timeout_env (example_client\<lparr>max_retries := 1\<rparr>)
                    (JStr ''count leads'') (JStr ''natural'') JNull JNull),
         Sleep 1,
         Request (natural_query_request timeout_env (example_client\<lparr>max_retries := 1\<rparr>)
                    (JStr ''count leads'') (JStr ''natural'') JNull JNull)])
   \<and> \<not> is_transient (PyException ''Request timeout after 30.0s'')
   \<and> PyException ''Request timeout after 30.0s'' \<noteq> TimeoutException ''timed out''"
proof -
  have "make_request_with_retry timeout_env (example_client\<lparr>max_retries := 1\<rparr>) rq []
          = (Inl (TimeoutException ''timed out''), [Request rq, Sleep 1, Request rq])" for rq
    unfolding make_request_with_retry_def
    using make_request_loop_exhausted
            [where k = 1 and a = 0 and w = "[]" and env = timeout_env and rq = rq
               and c = "example_client\<lparr>max_retries := 1\<rparr>"
               and es = "\<lambda>i. TimeoutException ''timed out''"]
    by (simp add: timeout_env_def flaky_env_def example_client_def)
  then show ?thesis
    by (simp add: natural_query_def strip_def isspace_def natural_query_except_def
          timeout_env_def flaky_env_def example_client_def)
qed

text \<open>
  C2: with valid arguments and a client that makes at least one attempt
  (\<open>max_retries\<close> not negative), when the outbound call is answered with a status
  outside 200..299 the trace grows by that one call, with no sleep and no second attempt,
  and \<open>natural_query\<close> raises \<open>HTTPStatusError\<close> with the response, which holds the
  status code and the body.
\<close>

theorem natural_query_status_error_not_retried:
  assumes "strip q \<noteq> []" and "length q \<le> 1000" and "rf \<in> {''table'', ''natural'', ''both''}"
    and "rq = natural_query_request env c (JStr q) (JStr rf) em sid"
    and "0 \<le> max_retries c"
    and "request env (requests_made w) rq = Returns r"
    and "\<not> is_success r"
  shows "natural_query env c (JStr q) (JStr rf) em sid w = (Inl (HTTPStatusError r), w @ [Request rq])"
proof -
  have "make_request_with_retry env c rq w = (Inr r, w @ [Request rq])"
    unfolding make_request_with_retry_def using assms(5,6)
    by (subst make_request_loop.simps) simp
  then show ?thesis
    using assms(4,7) by (simp add: natural_query_valid [OF assms(1-3)])
qed

theorem natural_query_status_error_not_retried_witness:
  "natural_query status_env example_client (JStr ''count leads'') (JStr ''natural'') JNull JNull []
     = (Inl (HTTPStatusError error_response),
        [Request (natural_query_request status_env example_client
                    (JStr ''count leads'') (JStr ''natural'') JNull JNull)])"
  using natural_query_status_error_not_retried
          [OF example_arguments_valid refl,
           where c = example_client and w = "[]" and env = status_env
             and em = JNull and sid = JNull and r = error_response]
  by (simp add: status_env_def example_client_def error_response_def is_success_def)

text \<open>
  C3: a query that is empty or all whitespace, a query of more than 1000 characters, or a
  response format other than the three strings makes \<open>natural_query\<close> raise
  \<open>ValueError\<close>, and the trace of the world is as before the call: no outbound call was
  made.
\<close>

theorem natural_query_rejects_invalid_arguments:
  assumes "strip q = [] \<or> 1000 < length q \<or> rf \<notin> {JStr ''table'', JStr ''natural'', JStr ''both''}"
  shows "\<exists>m. natural_query env c (JStr q) rf em sid w = (Inl (ValueError m), w)"
  using assms by (auto simp: natural_query_def)

theorem natural_query_rejects_invalid_arguments_witness:
  "(\<exists>m. natural_query flaky_env example_client (JStr ''   '') (JStr ''natural'') JNull JNull []
          = (Inl (ValueError m), []))
   \<and> (\<exists>m. natural_query flaky_env example_client (JStr (replicate 1001 CHR ''a'')) (JStr ''natural'')
            JNull JNull [] = (Inl (ValueError m), []))
   \<and> (\<exists>m. natural_query flaky_env example_client (JStr ''count leads'') (JStr ''xml'') JNull JNull []
          = (Inl (ValueError m), []))"
proof (intro conjI)
  show "\<exists>m. natural_query flaky_env example_client (JStr ''   '') (JStr ''natural'') JNull JNull []
          = (Inl (ValueError m), [])"
    by (rule natural_query_rejects_invalid_arguments) (simp add: strip_def isspace_def)
  show "\<exists>m. natural_query flaky_env example_client (JStr (replicate 1001 CHR ''a'')) (JStr ''natural'')
            JNull JNull [] = (Inl (ValueError m), [])"
    by (rule natural_query_rejects_invalid_arguments) simp
  show "\<exists>m. natural_query flaky_env example_client (JStr ''count leads'') (JStr ''xml'') JNull JNull []
          = (Inl (ValueError m), [])"
    by (rule natural_query_rejects_invalid_arguments) simp
qed

subsection \<open>The dispatcher\<close>

text \<open>
  When the client holds a token, the query argument is truthy and the delegated
  \<open>natural_query\<close> raises \<open>e\<close>, the handlers around the delegated call decide the
  result: the one for \<open>HTTPStatusError\<close>, or else the one for \<open>Exception\<close>. The
  handlers at the end of \<open>handle_call_tool\<close> are not reached.
\<close>

lemma natural_query_tool_error:
  assumes "truthy (auth_token c)" and "truthy (dict_get args ''query'')"
    and "natural_query env c (dict_get args ''query'')
           (case args ''response_format'' of None \<Rightarrow> JStr ''both'' | Some v \<Rightarrow> v)
           (dict_get args ''enable_memory'') (dict_get args ''session_id'') w = (Inl e, w')"
  shows "handle_call_tool env ''natural_query'' (Some args) c w
           = (Inr [\<lparr>type = ''text'',
                    text = (case e of
                              HTTPStatusError r \<Rightarrow>
                                ''API Error: HTTP '' @ str_int (status_code r) @ '': '' @ response.text r
                            | _ \<Rightarrow> ''Error executing natural query: '' @ str_exn e)\<rparr>], c, w')"
  using assms by (simp add: handle_call_tool_def call_tool_body_def split: exn.splits)

text \<open>
  The handlers at the end are reached from the \<open>set_auth_token\<close> branch: by the
  \<open>ValueError\<close> for a short token, and by the \<open>TypeError\<close> that \<^verbatim>\<open>len\<close> raises for a
  token that is a number.
\<close>

lemma set_auth_token_tool_short_token:
  "handle_call_tool env ''set_auth_token'' (Some [''token'' \<mapsto> JStr ''short'']) c w
     = (Inr [\<lparr>type = ''text'', text = ''Validation Error: Invalid token format''\<rparr>], c, w)"
  by (simp add: handle_call_tool_def call_tool_body_def set_auth_token_def dict_get_def)

lemma set_auth_token_tool_number_token:
  "handle_call_tool env ''set_auth_token'' (Some [''token'' \<mapsto> JInt 12345]) c w
     = (Inr [\<lparr>type = ''text'',
              text = ''Unexpected error: object of type 'int' has no len()''\<rparr>], c, w)"
  by (simp add: handle_call_tool_def call_tool_body_def set_auth_token_def dict_get_def)

text \<open>The three delegated calls that the concrete statements below use.\<close>

lemma invalid_format_query:
  "natural_query env example_client (JStr ''count leads'') (JStr ''xml'') JNull JNull []
     = (Inl (ValueError (''Invalid response_format. Must be 'table', 'natural', or 'both'' @ [CHR 0x27])), [])"
  by (simp add: natural_query_def strip_def isspace_def)

lemma dead_env_query:
  "natural_query dead_env (example_client\<lparr>max_retries := 1\<rparr>) (JStr ''count leads'') (JStr ''both'')
     JNull JNull []
   = (Inl (ConnectError ''All connection attempts failed''),
      [Request (natural_query_request dead_env (example_client\<lparr>max_retries := 1\<rparr>)
                  (JStr ''count leads'') (JStr ''both'') JNull JNull),
       Sleep 1,
       Request (natural_query_request dead_env (example_client\<lparr>max_retries := 1\<rparr>)
                  (JStr ''count leads'') (JStr ''both'') JNull JNull)])"
proof -
  have "make_request_with_retry dead_env (example_client\<lparr>max_retries := 1\<rparr>) rq []
          = (Inl (ConnectError ''All connection attempts failed''), [Request rq, Sleep 1, Request rq])" for rq
    unfolding make_request_with_retry_def
    using make_request_loop_exhausted
            [where k = 1 and a = 0 and w = "[]" and env = dead_env and rq = rq
               and c = "example_client\<lparr>max_retries := 1\<rparr>"
               and es = "\<lambda>i. ConnectError ''All connection attempts failed''"]
    by (simp add: dead_env_def flaky_env_def example_client_def)
  then show ?thesis
    by (simp add: natural_query_def strip_def isspace_def natural_query_except_def)
qed

lemma status_env_query:
  "natural_query status_env example_client (JStr ''count leads'') (JStr ''both'') JNull JNull []
   = (Inl (HTTPStatusError error_response),
      [Request (natural_query_request status_env example_client
                  (JStr ''count leads'') (JStr ''both'') JNull JNull)])"
proof -
  have "make_request_with_retry status_env example_client rq [] = (Inr error_response, [Request rq])" for rq
    unfolding make_request_with_retry_def
    by (subst make_request_loop.simps) (simp add: status_env_def flaky_env_def example_client_def)
  then show ?thesis
    by (simp add: natural_query_def strip_def isspace_def natural_query_except_def
          raise_for_status_def is_success_def error_response_def)
qed

lemma str_int_500: "str_int 500 = ''500''"
  by (simp add: str_int_def str_nat.simps)

text \<open>
  C4, as the code has it: when the client holds a token, the query argument is truthy and
  the delegated \<open>natural_query\<close> raises a \<open>ValueError\<close>, the dispatcher returns a single
  text result whose text is \<open>Error executing natural query: \<close> followed by the message of
  the error.
\<close>

theorem natural_query_tool_validation_error:
  assumes "truthy (auth_token c)" and "truthy (dict_get args ''query'')"
    and "natural_query env c (dict_get args ''query'')
           (case args ''response_format'' of None \<Rightarrow> JStr ''both'' | Some v \<Rightarrow> v)
           (dict_get args ''enable_memory'') (dict_get args ''session_id'') w = (Inl e, w')"
    and "isinstance_ValueError e"
  shows "handle_call_tool env ''natural_query'' (Some args) c w
           = (Inr [\<lparr>type = ''text'', text = ''Error executing natural query: '' @ str_exn e\<rparr>], c, w')"
  using natural_query_tool_error [OF assms(1-3)] assms(4) by (cases e) simp_all

theorem natural_query_tool_validation_error_witness:
  "handle_call_tool flaky_env ''natural_query''
     (Some [''query'' \<mapsto> JStr ''count leads'', ''response_format'' \<mapsto> JStr ''xml'']) example_client []
   = (Inr [\<lparr>type = ''text'',
            text = ''Error executing natural query: Invalid response_format. Must be 'table', 'natural', or 'both''
                   @ [CHR 0x27]\<rparr>], example_client, [])"
  using natural_query_tool_validation_error
          [where c = example_client and env = flaky_env and w = "[]" and w' = "[]"
             and args = "[''query'' \<mapsto> JStr ''count leads'', ''response_format'' \<mapsto> JStr ''xml'']"
             and e = "ValueError (''Invalid response_format. Must be 'table', 'natural', or 'both'' @ [CHR 0x27])"]
    invalid_format_query [of flaky_env]
  by (simp add: dict_get_def example_client_def)

text \<open>
  C4 as stated fails: with a token set and the response format \<open>xml\<close> the delegated call
  raises a \<open>ValueError\<close>, and the text of the result does not begin with
  \<open>Validation Error: \<close>.
\<close>

theorem natural_query_tool_validation_error_counterexample:
  "truthy (auth_token example_client)
   \<and> natural_query flaky_env example_client (JStr ''count leads'') (JStr ''xml'') JNull JNull []
       = (Inl (ValueError (''Invalid response_format. Must be 'table', 'natural', or 'both'' @ [CHR 0x27])), [])
   \<and> fst (handle_call_tool flaky_env ''natural_query''
            (Some [''query'' \<mapsto> JStr ''count leads'', ''response_format'' \<mapsto> JStr ''xml''])
            example_client [])
       = Inr [\<lparr>type = ''text'',
               text = ''Error executing natural query: Invalid response_format. Must be 'table', 'natural', or 'both''
                      @ [CHR 0x27]\<rparr>]
   \<and> \<not> prefix ''Validation Error: ''
         (''Error executing natural query: Invalid response_format. Must be 'table', 'natural', or 'both''
          @ [CHR 0x27])"
  using invalid_format_query [of flaky_env]
  by (simp add: handle_call_tool_def call_tool_body_def dict_get_def example_client_def Let_def)

text \<open>
  C5, as the code has it: when the client holds a token, the query argument is truthy and
  the delegated \<open>natural_query\<close> raises an exception that is neither a \<open>ValueError\<close> nor
  an \<open>HTTPStatusError\<close>, the dispatcher returns a single text result whose text is
  \<open>Error executing natural query: \<close> followed by the message of the exception.
\<close>

theorem natural_query_tool_unexpected_error:
  assumes "truthy (auth_token c)" and "truthy (dict_get args ''query'')"
    and "natural_query env c (dict_get args ''query'')
           (case args ''response_format'' of None \<Rightarrow> JStr ''both'' | Some v \<Rightarrow> v)
           (dict_get args ''enable_memory'') (dict_get args ''session_id'') w = (Inl e, w')"
    and "\<not> isinstance_ValueError e" and "\<not> isinstance_HTTPStatusError e"
  shows "handle_call_tool env ''natural_query'' (Some args) c w
           = (Inr [\<lparr>type = ''text'', text = ''Error executing natural query: '' @ str_exn e\<rparr>], c, w')"
  using natural_query_tool_error [OF assms(1-3)] assms(5) by (cases e) simp_all

theorem natural_query_tool_unexpected_error_witness:
  "handle_call_tool dead_env ''natural_query'' (Some [''query'' \<mapsto> JStr ''count leads''])
     (example_client\<lparr>max_retries := 1\<rparr>) []
   = (Inr [\<lparr>type = ''text'',
            text = ''Error executing natural query: All connection attempts failed''\<rparr>],
      example_client\<lparr>max_retries := 1\<rparr>,
      [Request (natural_query_request dead_env (example_client\<lparr>max_retries := 1\<rparr>)
                  (JStr ''count leads'') (JStr ''both'') JNull JNull),
       Sleep 1,
       Request (natural_query_request dead_env (example_client\<lparr>max_retries := 1\<rparr>)
                  (JStr ''count leads'') (JStr ''both'') JNull JNull)])"
  using natural_query_tool_unexpected_error
          [where c = "example_client\<lparr>max_retries := 1\<rparr>" and env = dead_env and w = "[]"
             and args = "[''query'' \<mapsto> JStr ''count leads'']"
             and e = "ConnectError ''All connection attempts failed''"]
    dead_env_query
  by (simp add: dict_get_def example_client_def)

text \<open>
  C5 as stated fails: when both attempts end in a connect error the delegated call raises
  that error, and the text of the result does not begin with \<open>Unexpected error: \<close>.
\<close>

theorem natural_query_tool_unexpected_error_counterexample:
  "truthy (auth_token (example_client\<lparr>max_retries := 1\<rparr>))
   \<and> fst (natural_query dead_env (example_client\<lparr>max_retries := 1\<rparr>)
            (JStr ''count leads'') (JStr ''both'') JNull JNull [])
       = Inl (ConnectError ''All connection attempts failed'')
   \<and> fst (handle_call_tool dead_env ''natural_query'' (Some [''query'' \<mapsto> JStr ''count leads''])
            (example_client\<lparr>max_retries := 1\<rparr>) [])
       = Inr [\<lparr>type = ''text'',
               text = ''Error executing natural query: All connection attempts failed''\<rparr>]
   \<and> \<not> prefix ''Unexpected error: '' ''Error executing natural query: All connection attempts failed''"
  using dead_env_query
  by (simp add: handle_call_tool_def call_tool_body_def dict_get_def example_client_def Let_def)

text \<open>
  C6, as the code has it: when the client holds a token, the query argument is truthy and
  the delegated \<open>natural_query\<close> raises \<open>HTTPStatusError\<close> for the response \<open>r\<close>, the
  dispatcher returns a single text result whose text is \<open>API Error: HTTP \<close>, the status
  code of \<open>r\<close>, a colon and the body of \<open>r\<close>.
\<close>

theorem natural_query_tool_status_error:
  assumes "truthy (auth_token c)" and "truthy (dict_get args ''query'')"
    and "natural_query env c (dict_get args ''query'')
           (case args ''response_format'' of None \<Rightarrow> JStr ''both'' | Some v \<Rightarrow> v)
           (dict_get args ''enable_memory'') (dict_get args ''session_id'') w
         = (Inl (HTTPStatusError r), w')"
  shows "handle_call_tool env ''natural_query'' (Some args) c w
           = (Inr [\<lparr>type = ''text'',
                    text = ''API Error: '' @ ''HTTP '' @ str_int (status_code r) @ '': '' @ response.text r\<rparr>],
              c, w')"
  using natural_query_tool_error [OF assms] by simp

theorem natural_query_tool_status_error_witness:
  \<open>handle_call_tool status_env ''natural_query'' (Some [''query'' \<mapsto> JStr ''count leads''])
     example_client []
   = (Inr [\<lparr>type = ''text'', text = ''API Error: HTTP 500: {"error_code": "E42"}''\<rparr>],
      example_client,
      [Request (natural_query_request status_env example_client
                  (JStr ''count leads'') (JStr ''both'') JNull JNull)])\<close>
  using natural_query_tool_status_error
          [where c = example_client and env = status_env and w = "[]"
             and args = "[''query'' \<mapsto> JStr ''count leads'']" and r = error_response]
    status_env_query
  by (simp add: dict_get_def example_client_def error_response_def str_int_500)

text \<open>
  C6 as stated fails: the upstream answers with status 500 and a JSON body that has the
  field \<open>error_code\<close>, and the text of the result ends with the whole body, not with the
  error code in its place.
\<close>

theorem natural_query_tool_status_error_counterexample:
  \<open>truthy (auth_token example_client)
   \<and> fst (natural_query status_env example_client (JStr ''count leads'') (JStr ''both'') JNull JNull [])
       = Inl (HTTPStatusError error_response)
   \<and> loads status_env (response.text error_response) = Inr (JObj [(''error_code'', JStr ''E42'')])
   \<and> fst (handle_call_tool status_env ''natural_query'' (Some [''query'' \<mapsto> JStr ''count leads''])
            example_client [])
       = Inr [\<lparr>type = ''text'', text = ''API Error: HTTP 500: '' @ response.text error_response\<rparr>]
   \<and> ''API Error: HTTP 500: '' @ response.text error_response \<noteq> ''API Error: HTTP 500: E42''\<close>
  using status_env_query
  by (simp add: handle_call_tool_def call_tool_body_def dict_get_def example_client_def
        error_response_def str_int_500 status_env_def flaky_env_def Let_def)

text \<open>The body of the dispatcher ends with an exception or with one text result.\<close>

lemma call_tool_body_shape:
  "\<exists>c' w'. (\<exists>e. call_tool_body env nm args c w = (Inl e, c', w'))
         \<or> (\<exists>t. call_tool_body env nm args c w = (Inr [\<lparr>type = ''text'', text = t\<rparr>], c', w'))"
  by (auto simp: call_tool_body_def Let_def split: prod.splits sum.splits exn.splits)

text \<open>
  C7: for every environment, tool name, argument bag (absent or present), client and
  world, \<open>handle_call_tool\<close> returns: its result is never an exception, and it is a list
  of one text result of type \<open>text\<close>.
\<close>

theorem handle_call_tool_never_raises:
  "\<exists>t c' w'. handle_call_tool env nm args c w = (Inr [\<lparr>type = ''text'', text = t\<rparr>], c', w')"
proof -
  obtain c' w' where
    "(\<exists>e. call_tool_body env nm (case args of None \<Rightarrow> Map.empty | Some d \<Rightarrow> d) c w = (Inl e, c', w'))
     \<or> (\<exists>t. call_tool_body env nm (case args of None \<Rightarrow> Map.empty | Some d \<Rightarrow> d) c w
            = (Inr [\<lparr>type = ''text'', text = t\<rparr>], c', w'))"
    using call_tool_body_shape by blast
  then show ?thesis
    by (auto simp: handle_call_tool_def Let_def split: exn.splits)
qed

theorem handle_call_tool_never_raises_witness:
  "\<exists>t c' w'. handle_call_tool dead_env ''set_auth_token'' (Some [''token'' \<mapsto> JInt 12345])
               example_client [] = (Inr [\<lparr>type = ''text'', text = t\<rparr>], c', w')"
  by (rule handle_call_tool_never_raises)

text \<open>
  C10: an absent argument bag and the empty one give the same result, the same client and
  the same world.
\<close>

theorem handle_call_tool_none_is_empty:
  "handle_call_tool env nm None c w = handle_call_tool env nm (Some Map.empty) c w"
  by (simp add: handle_call_tool_def)

theorem handle_call_tool_none_is_empty_witness:
  "handle_call_tool flaky_env ''natural_query'' None example_client []
     = handle_call_tool flaky_env ''natural_query'' (Some Map.empty) example_client []"
  by (rule handle_call_tool_none_is_empty)

subsection \<open>The HTTP handlers\<close>

lemma restore_token_auth:
  "auth_token (restore_token t c) = (if truthy t then t else JNull)"
  by (simp add: restore_token_def)

lemma set_auth_token_error: "set_auth_token c t = (Inl e, c') \<Longrightarrow> c' = c"
  by (auto simp: set_auth_token_def split: if_splits sum.splits)

text \<open>
  After each handler the stored token is the one from before the request, or \<open>JNull\<close>
  when that one was not truthy.
\<close>

lemma natural_language_query_token:
  "auth_token (fst (snd (natural_language_query env rq a c w)))
     \<in> {auth_token c, if truthy (auth_token c) then auth_token c else JNull}"
  by (auto simp: natural_language_query_def natural_language_query_body_def Let_def
        restore_token_auth dest: set_auth_token_error split: option.splits prod.splits sum.splits)

lemma list_tools_token:
  "auth_token (fst (snd (list_tools env a c w)))
     \<in> {auth_token c, if truthy (auth_token c) then auth_token c else JNull}"
  by (auto simp: list_tools_def list_tools_body_def Let_def
        restore_token_auth dest: set_auth_token_error split: option.splits prod.splits sum.splits)

lemma execute_tool_token:
  "auth_token (fst (snd (execute_tool env rq a c w)))
     \<in> {auth_token c, if truthy (auth_token c) then auth_token c else JNull}"
  by (auto simp: execute_tool_def execute_tool_body_def Let_def
        restore_token_auth dest: set_auth_token_error split: option.splits prod.splits sum.splits)

text \<open>
  With a header \<open>Bearer tok\<close> whose token has at least ten characters, the outbound
  calls and sleeps of \<^verbatim>\<open>POST /query\<close> and \<^verbatim>\<open>POST /tools\<close> are those of the
  dispatcher run on the client that holds \<open>tok\<close>.
\<close>

lemma set_auth_token_ok:
  "10 \<le> length tok \<Longrightarrow> set_auth_token c (JStr tok) = (Inr (), c\<lparr>auth_token := JStr tok\<rparr>)"
  by (auto simp: set_auth_token_def)

lemma natural_language_query_delegates:
  assumes "10 \<le> length tok" and "query qr \<noteq> []"
  shows "snd (snd (natural_language_query env qr (Some (''Bearer '' @ tok)) c w))
           = snd (snd (handle_call_tool env ''natural_query''
                         (Some [''query'' \<mapsto> JStr (query qr),
                                ''response_format'' \<mapsto> JStr (response_format qr)])
                         (c\<lparr>auth_token := JStr tok\<rparr>) w))"
  using assms
  by (auto simp: natural_language_query_def natural_language_query_body_def Let_def
        set_auth_token_ok split: prod.splits sum.splits)

lemma execute_tool_delegates:
  assumes "10 \<le> length tok"
  shows "snd (snd (execute_tool env tr (Some (''Bearer '' @ tok)) c w))
           = snd (snd (handle_call_tool env (ToolRequest.name tr) (Some (arguments tr))
                         (c\<lparr>auth_token := JStr tok\<rparr>) w))"
  using assms
  by (auto simp: execute_tool_def execute_tool_body_def get_auth_token_def Let_def
        set_auth_token_ok split: prod.splits sum.splits)

text \<open>
  C9: after each of \<^verbatim>\<open>POST /query\<close>, \<^verbatim>\<open>GET /tools\<close> and \<^verbatim>\<open>POST /tools\<close>,
  whatever the request, the header and the environment are, the stored token is the one
  from before the request, or it is \<open>None\<close> and there was no token before the request:
  the stored value was not truthy, which is how the program reads a token as absent. So a
  token that was \<open>None\<close> or non-empty is there again as it was. In between, the
  delegated tool call runs on the client that holds the token of the header: the world
  after the handler is the world after that call.
\<close>

theorem handlers_restore_token:
  "(auth_token (fst (snd (natural_language_query env qr a c w))) = auth_token c
      \<or> \<not> truthy (auth_token c)
        \<and> auth_token (fst (snd (natural_language_query env qr a c w))) = JNull)
   \<and> (auth_token (fst (snd (list_tools env a c w))) = auth_token c
      \<or> \<not> truthy (auth_token c) \<and> auth_token (fst (snd (list_tools env a c w))) = JNull)
   \<and> (auth_token (fst (snd (execute_tool env tr a c w))) = auth_token c
      \<or> \<not> truthy (auth_token c) \<and> auth_token (fst (snd (execute_tool env tr a c w))) = JNull)
   \<and> (auth_token c = JNull \<or> truthy (auth_token c)
      \<longrightarrow> auth_token (fst (snd (natural_language_query env qr a c w))) = auth_token c
        \<and> auth_token (fst (snd (list_tools env a c w))) = auth_token c
        \<and> auth_token (fst (snd (execute_tool env tr a c w))) = auth_token c)
   \<and> (10 \<le> length tok \<and> query qr \<noteq> []
      \<longrightarrow> snd (snd (natural_language_query env qr (Some (''Bearer '' @ tok)) c w))
            = snd (snd (handle_call_tool env ''natural_query''
                          (Some [''query'' \<mapsto> JStr (query qr),
                                 ''response_format'' \<mapsto> JStr (response_format qr)])
                          (c\<lparr>auth_token := JStr tok\<rparr>) w)))
   \<and> (10 \<le> length tok
      \<longrightarrow> snd (snd (execute_tool env tr (Some (''Bearer '' @ tok)) c w))
            = snd (snd (handle_call_tool env (ToolRequest.name tr) (Some (arguments tr))
                          (c\<lparr>auth_token := JStr tok\<rparr>) w)))"
proof -
  have q: "auth_token (fst (snd (natural_language_query env qr a c w))) = auth_token c
      \<or> \<not> truthy (auth_token c)
        \<and> auth_token (fst (snd (natural_language_query env qr a c w))) = JNull"
    using natural_language_query_token [of env qr a c w] by (auto split: if_splits)
  have l: "auth_token (fst (snd (list_tools env a c w))) = auth_token c
      \<or> \<not> truthy (auth_token c) \<and> auth_token (fst (snd (list_tools env a c w))) = JNull"
    using list_tools_token [of env a c w] by (auto split: if_splits)
  have e: "auth_token (fst (snd (execute_tool env tr a c w))) = auth_token c
      \<or> \<not> truthy (auth_token c) \<and> auth_token (fst (snd (execute_tool env tr a c w))) = JNull"
    using execute_tool_token [of env tr a c w] by (auto split: if_splits)
  have same: "auth_token (fst (snd (natural_language_query env qr a c w))) = auth_token c
        \<and> auth_token (fst (snd (list_tools env a c w))) = auth_token c
        \<and> auth_token (fst (snd (execute_tool env tr a c w))) = auth_token c"
    if "auth_token c = JNull \<or> truthy (auth_token c)"
    using that q l e by auto
  show ?thesis
    using q l e same natural_language_query_delegates [of tok qr env c w]
      execute_tool_delegates [of tok env tr c w]
    by blast
qed

text \<open>
  A client that holds a token serves three requests with another token in the header,
  the last of which also sets a third token through the tool; the outbound call of the
  first request carries the token of the header. A client whose stored token is the
  empty string holds \<open>None\<close> after a request.
\<close>

theorem handlers_restore_token_witness:
  "auth_token (fst (snd (natural_language_query status_env
      \<lparr>query = ''count leads'', response_format = ''natural''\<rparr>
      (Some ''Bearer request-token-5678'') example_client []))) = JStr ''valid-token-1234''
   \<and> auth_token (fst (snd (list_tools status_env
      (Some ''Bearer request-token-5678'') example_client []))) = JStr ''valid-token-1234''
   \<and> auth_token (fst (snd (execute_tool status_env
      \<lparr>name = ''set_auth_token'', arguments = [''token'' \<mapsto> JStr ''another-token-9012'']\<rparr>
      (Some ''Bearer request-token-5678'') example_client []))) = JStr ''valid-token-1234''
   \<and> snd (snd (natural_language_query status_env
      \<lparr>query = ''count leads'', response_format = ''natural''\<rparr>
      (Some ''Bearer request-token-5678'') example_client []))
     = [Request \<lparr>http_method = ''POST'', url = ''https://goferapi.ambivo.com/entity/natural_query'',
          json_payload = JObj [(''query'', JStr ''count leads''), (''response_format'', JStr ''natural'')],
          headers = [(''Content-Type'', ''application/json''), (''Accept'', ''application/json''),
                     (''Authorization'', ''Bearer request-token-5678'')]\<rparr>]
   \<and> auth_token (fst (snd (execute_tool flaky_env
      \<lparr>name = ''unknown_tool'', arguments = Map.empty\<rparr>
      (Some ''Bearer request-token-5678'') (example_client\<lparr>auth_token := JStr ''''\<rparr>) [])))
     \<in> {JStr '''', JNull}"
proof -
  note inst = handlers_restore_token
          [where c = example_client and env = status_env and w = "[]"
             and a = "Some ''Bearer request-token-5678''" and tok = "''request-token-5678''"
             and qr = "\<lparr>query = ''count leads'', response_format = ''natural''\<rparr>"
             and tr = "\<lparr>name = ''set_auth_token'',
                         arguments = [''token'' \<mapsto> JStr ''another-token-9012'']\<rparr>"]
  have tokens:
    "auth_token (fst (snd (natural_language_query status_env
        \<lparr>query = ''count leads'', response_format = ''natural''\<rparr>
        (Some ''Bearer request-token-5678'') example_client []))) = JStr ''valid-token-1234''
     \<and> auth_token (fst (snd (list_tools status_env
        (Some ''Bearer request-token-5678'') example_client []))) = JStr ''valid-token-1234''
     \<and> auth_token (fst (snd (execute_tool status_env
        \<lparr>name = ''set_auth_token'', arguments = [''token'' \<mapsto> JStr ''another-token-9012'']\<rparr>
        (Some ''Bearer request-token-5678'') example_client []))) = JStr ''valid-token-1234''"
    using inst by (simp add: example_client_def)
  have "snd (snd (natural_language_query status_env
        \<lparr>query = ''count leads'', response_format = ''natural''\<rparr>
        (Some ''Bearer request-token-5678'') example_client []))
      = snd (snd (handle_call_tool status_env ''natural_query''
                    (Some [''query'' \<mapsto> JStr ''count leads'', ''response_format'' \<mapsto> JStr ''natural''])
                    (example_client\<lparr>auth_token := JStr ''request-token-5678''\<rparr>) []))"
    using inst by (simp add: example_client_def)
  also have "\<dots> = [Request \<lparr>http_method = ''POST'', url = ''https://goferapi.ambivo.com/entity/natural_query'',
          json_payload = JObj [(''query'', JStr ''count leads''), (''response_format'', JStr ''natural'')],
          headers = [(''Content-Type'', ''application/json''), (''Accept'', ''application/json''),
                     (''Authorization'', ''Bearer request-token-5678'')]\<rparr>]"
    by (simp add: handle_call_tool_def call_tool_body_def dict_get_def Let_def
          natural_query_def strip_def isspace_def make_request_with_retry_def
          make_request_loop.simps status_env_def flaky_env_def example_client_def
          natural_query_request_def get_headers_def py_format_def raise_for_status_def
          is_success_def error_response_def natural_query_except_def)
  finally have trace: "snd (snd (natural_language_query status_env
        \<lparr>query = ''count leads'', response_format = ''natural''\<rparr>
        (Some ''Bearer request-token-5678'') example_client []))
      = [Request \<lparr>http_method = ''POST'', url = ''https://goferapi.ambivo.com/entity/natural_query'',
          json_payload = JObj [(''query'', JStr ''count leads''), (''response_format'', JStr ''natural'')],
          headers = [(''Content-Type'', ''application/json''), (''Accept'', ''application/json''),
                     (''Authorization'', ''Bearer request-token-5678'')]\<rparr>]" .
  have empty: "auth_token (fst (snd (execute_tool flaky_env
      \<lparr>name = ''unknown_tool'', arguments = Map.empty\<rparr>
      (Some ''Bearer request-token-5678'') (example_client\<lparr>auth_token := JStr ''''\<rparr>) [])))
     \<in> {JStr '''', JNull}"
    using handlers_restore_token
            [where c = "example_client\<lparr>auth_token := JStr ''''\<rparr>" and env = flaky_env and w = "[]"
               and a = "Some ''Bearer request-token-5678''"
               and tr = "\<lparr>name = ''unknown_tool'', arguments = Map.empty\<rparr>"]
    by auto
  from tokens trace empty show ?thesis by simp
qed

text \<open>
  The stored empty string, which every test of the token reads as no token, is replaced
  by \<open>None\<close> when the handler reaches its \<^verbatim>\<open>finally\<close> block, and stays when the handler
  leaves before it.
\<close>

lemma empty_token_after_request:
  "auth_token (fst (snd (execute_tool flaky_env \<lparr>name = ''unknown_tool'', arguments = Map.empty\<rparr>
      (Some ''Bearer request-token-5678'') (example_client\<lparr>auth_token := JStr ''''\<rparr>) []))) = JNull
   \<and> auth_token (fst (snd (execute_tool flaky_env \<lparr>name = ''unknown_tool'', arguments = Map.empty\<rparr>
      (Some ''Bearer short'') (example_client\<lparr>auth_token := JStr ''''\<rparr>) []))) = JStr ''''"
  by (simp add: execute_tool_def execute_tool_body_def get_auth_token_def set_auth_token_def
        handle_call_tool_def call_tool_body_def restore_token_def example_client_def Let_def)

subsection \<open>Setting the token\<close>

text \<open>
  C8: \<open>set_auth_token\<close> with a string token succeeds and stores the token exactly when
  the token is non-empty and has at least ten characters; otherwise it raises
  \<open>ValueError\<close> and the client, with its token, is as before.
\<close>

theorem set_auth_token_string:
  "set_auth_token c (JStr t) =
     (if t \<noteq> [] \<and> 10 \<le> length t
      then (Inr (), c\<lparr>auth_token := JStr t\<rparr>)
      else (Inl (ValueError ''Invalid token format''), c))"
  by (simp add: set_auth_token_def)

theorem set_auth_token_string_witness:
  "set_auth_token example_client (JStr ''request-token-5678'')
     = (Inr (), example_client\<lparr>auth_token := JStr ''request-token-5678''\<rparr>)
   \<and> set_auth_token example_client (JStr ''short'')
     = (Inl (ValueError ''Invalid token format''), example_client)"
  using set_auth_token_string [of example_client "''request-token-5678''"]
    set_auth_token_string [of example_client "''short''"]
  by simp

end
